theory Spec2Isabelle
  imports Main "HOL-Library.Word"
begin

section \<open>JavaScript strings and values\<close>

text \<open>
  A JavaScript string is a sequence of UTF-16 code units; \<open>length\<close>, \<open>substring\<close>,
  \<open>trim\<close> and the regular expressions of the handlers all work on code units. A string
  is therefore a list of 16-bit words, and \<open>str\<close> embeds an ASCII literal of the source.
\<close>

type_synonym code_unit = "16 word"
type_synonym jsstring = "code_unit list"

definition str :: "string \<Rightarrow> jsstring" where
  "str s = map of_char s"

text \<open>
  The values a parsed JSON body can hold. \<open>JUndefined\<close> stands for an absent property.
  A number is observed by the handlers only through its truthiness, so an integer
  stands for it.
\<close>

datatype jsval =
    JUndefined
  | JNull
  | JBool bool
  | JNum int
  | JStr jsstring
  | JArr "jsval list"
  | JObj "(jsstring \<times> jsval) list"

text \<open>\<open>ToBoolean\<close>: what \<open>if (v)\<close>, \<open>!v\<close> and \<open>v || d\<close> test.\<close>

fun truthy :: "jsval \<Rightarrow> bool" where
  "truthy JUndefined = False"
| "truthy JNull = False"
| "truthy (JBool b) = b"
| "truthy (JNum n) = (n \<noteq> 0)"
| "truthy (JStr s) = (s \<noteq> [])"
| "truthy (JArr _) = True"
| "truthy (JObj _) = True"

text \<open>
  \<open>null\<close> and \<open>undefined\<close>: reading a property of one of them throws a \<open>TypeError\<close>.
\<close>

fun nullish :: "jsval \<Rightarrow> bool" where
  "nullish JUndefined = True"
| "nullish JNull = True"
| "nullish _ = False"

text \<open>
  \<open>v.k\<close> for a value \<open>v\<close> that is not \<open>null\<close> or \<open>undefined\<close> and one of the keys \<open>role\<close> and
  \<open>content\<close>, which no prototype defines: the own property of an object (the last one of
  that name in the JSON text), \<open>undefined\<close> for an object without it and for every
  other value.
\<close>

fun prop_of :: "jsstring \<Rightarrow> jsval \<Rightarrow> jsval" where
  "prop_of k (JObj kvs) = (case map_of (rev kvs) k of None \<Rightarrow> JUndefined | Some v \<Rightarrow> v)"
| "prop_of k _ = JUndefined"

section \<open>The title heuristic\<close>

text \<open>
  \<^verbatim>\<open>
  function generateChatTitle(content) {
    const cleanContent = content.replace(/[#*`_~\[\]()]/g, '').trim();
    const words = cleanContent.split(/\s+/).filter(word => word.length > 2);
    const titleWords = words.slice(0, Math.min(3, words.length));
    let title = titleWords.join(' ');
    if (title.length > 20) title = title.substring(0, 17) + '...';
    return title || 'New chat';
  }
  \<close>
  Each library call is modelled by its ECMAScript meaning on code units.
\<close>

text \<open>
  The characters matched by \<open>\s\<close> and removed by \<open>trim\<close>: the ECMAScript white space
  and line terminator code points (TAB, LF, VT, FF, CR, SP, NBSP, U+1680,
  U+2000..U+200A, U+2028, U+2029, U+202F, U+205F, U+3000, U+FEFF).
\<close>

definition is_space :: "code_unit \<Rightarrow> bool" where
  "is_space c \<longleftrightarrow>
     c \<in> set [0x0009, 0x000A, 0x000B, 0x000C, 0x000D, 0x0020, 0x00A0, 0x1680,
               0x2028, 0x2029, 0x202F, 0x205F, 0x3000, 0xFEFF]
     \<or> (0x2000 \<le> c \<and> c \<le> 0x200A)"

text \<open>The character class of the \<open>replace\<close>; \<open>0x60\<close> is the backquote.\<close>

definition markup_chars :: "code_unit list" where
  "markup_chars = str ''#*'' @ [0x0060] @ str ''_~[]()''"

text \<open>\<open>content.replace(/[...]/g, '')\<close>: every matching code unit is deleted.\<close>

definition strip_markup :: "jsstring \<Rightarrow> jsstring" where
  "strip_markup s = filter (\<lambda>c. c \<notin> set markup_chars) s"

definition trim :: "jsstring \<Rightarrow> jsstring" where
  "trim s = rev (dropWhile is_space (rev (dropWhile is_space s)))"

lemma split_ws_measure:
  "dropWhile (\<lambda>c. \<not> P c) s \<noteq> [] \<Longrightarrow>
   length (dropWhile P (dropWhile (\<lambda>c. \<not> P c) s)) < length s"
proof (induction s)
  case Nil
  then show ?case by simp
next
  case (Cons c s)
  show ?case
  proof (cases "P c")
    case True
    have "length (dropWhile P s) \<le> length s" by (rule length_dropWhile_le)
    with True show ?thesis by simp
  next
    case False
    with Cons have "length (dropWhile P (dropWhile (\<lambda>c. \<not> P c) s)) < length s" by simp
    with False show ?thesis by simp
  qed
qed

text \<open>
  \<open>s.split(/\s+/)\<close>: the pieces between the maximal runs of white space. A string that
  starts or ends with white space yields an empty first or last piece, and the empty
  string yields the one piece \<open>''\<close>.
\<close>

function split_ws :: "jsstring \<Rightarrow> jsstring list" where
  "split_ws s =
     (let piece = takeWhile (\<lambda>c. \<not> is_space c) s;
          rest = dropWhile (\<lambda>c. \<not> is_space c) s
      in if rest = [] then [piece] else piece # split_ws (dropWhile is_space rest))"
  by pat_completeness auto
termination
  by (relation "measure length") (simp_all add: split_ws_measure)

declare split_ws.simps [simp del]

text \<open>\<open>ws.join(sep)\<close>.\<close>

fun join_with :: "jsstring \<Rightarrow> jsstring list \<Rightarrow> jsstring" where
  "join_with sep [] = []"
| "join_with sep [w] = w"
| "join_with sep (w # ws) = w @ sep @ join_with sep ws"

text \<open>
  \<open>words.slice(0, n)\<close> is \<open>take n words\<close>, \<open>title.substring(0, 17)\<close> is \<open>take 17 title\<close>,
  and \<open>title || 'New chat'\<close> tests the title for the empty string.
\<close>

definition generateChatTitle :: "jsstring \<Rightarrow> jsstring" where
  "generateChatTitle content =
     (let cleanContent = trim (strip_markup content);
          words = filter (\<lambda>word. length word > 2) (split_ws cleanContent);
          titleWords = take (min 3 (length words)) words;
          title = join_with (str '' '') titleWords;
          title = (if length title > 20 then take 17 title @ str ''...'' else title)
      in if title \<noteq> [] then title else str ''New chat'')"

subsection \<open>The procedure as the specification words it\<close>

text \<open>
  The specification: strip the markup characters, trim, split on runs of white space
  into words, discard words of length at most 2, take at most the first 3 surviving
  words, join with single spaces; truncate a result longer than 20 characters to 17
  characters plus an ellipsis; return "New chat" when no words survive. The words of a
  text are its maximal runs of characters that are not white space.
\<close>

function words_of :: "jsstring \<Rightarrow> jsstring list" where
  "words_of s =
     (let t = dropWhile is_space s
      in if t = [] then []
         else takeWhile (\<lambda>c. \<not> is_space c) t
              # words_of (dropWhile (\<lambda>c. \<not> is_space c) t))"
  by pat_completeness auto
termination
  by (relation "measure length")
     (simp_all add: split_ws_measure [of "\<lambda>c. \<not> is_space c", simplified])

declare words_of.simps [simp del]

definition surviving_words :: "jsstring \<Rightarrow> jsstring list" where
  "surviving_words text =
     filter (\<lambda>w. \<not> length w \<le> 2) (words_of (trim (strip_markup text)))"

definition joined_title :: "jsstring \<Rightarrow> jsstring" where
  "joined_title text = join_with (str '' '') (take 3 (surviving_words text))"

definition title_spec :: "jsstring \<Rightarrow> jsstring" where
  "title_spec text =
     (if surviving_words text = [] then str ''New chat''
      else if 20 < length (joined_title text) then take 17 (joined_title text) @ str ''...''
      else joined_title text)"

section \<open>Requests, responses and the collaborators\<close>

text \<open>
  A request carries a parsed JSON object as its body: \<open>messages\<close> an array of any JSON
  values (a message of the request contract is an object with a \<open>role\<close> and a
  \<open>content\<close>, but an element may as well be \<open>null\<close>, a number or an object without these
  properties), \<open>model\<close>, \<open>userId\<close> and \<open>chatId\<close> strings, \<open>stream\<close> a boolean. An absent
  field is \<open>None\<close>; for \<open>messages\<close>, \<open>None\<close> also stands for a value that is not an array.
\<close>

record request =
  http_method :: jsstring
  authorization :: "jsstring option"
  body_messages :: "jsval list option"
  body_model :: "jsstring option"
  body_stream :: "bool option"
  body_userId :: "jsstring option"
  body_chatId :: "jsstring option"
  query_sessionId :: "jsstring option"

text \<open>\<open>process.env\<close>: the variables the handlers read.\<close>

record env =
  SUPABASE_URL :: "jsstring option"
  SUPABASE_SERVICE_ROLE_KEY :: "jsstring option"
  XAI_API_KEY :: "jsstring option"
  GROQ_API_KEY :: "jsstring option"

text \<open>Truthiness of a value that is a string when present.\<close>

definition truthy_str :: "jsstring option \<Rightarrow> bool" where
  "truthy_str v = (case v of None \<Rightarrow> False | Some s \<Rightarrow> s \<noteq> [])"

text \<open>The persistence store: the rows of the tables \<open>chats\<close> and \<open>messages\<close>.\<close>

record chat_row =
  chat_row_id :: jsstring
  user_id :: jsstring
  title :: jsstring

record message_row =
  role :: jsval
  content :: jsval
  chat_id :: jsstring

text \<open>A thrown JavaScript error with its \<open>message\<close>.\<close>

datatype js_error = Error jsstring | TypeError jsstring

fun error_message :: "js_error \<Rightarrow> jsstring" where
  "error_message (Error m) = m"
| "error_message (TypeError m) = m"

datatype 'a outcome = Throws js_error | Returns 'a

text \<open>
  \<open>supabase.auth.getUser(token)\<close> throws, or returns \<open>{ data: { user }, error }\<close>: whether
  \<open>error\<close> is set, and the \<open>id\<close> of \<open>user\<close> when \<open>user\<close> is not null.
\<close>

datatype get_user_result = GetUserThrows | GetUserReturns bool "jsstring option"

text \<open>
  The provider's text stream, as the reads of its reader see it: a value and the rest,
  the end of the stream, or a read that rejects. A value is a chunk of bytes (a
  \<open>Uint8Array\<close>) or a string; the \<open>textStream\<close> of the \<open>ai\<close> package delivers strings.
\<close>

datatype chunk = Bytes "8 word list" | Text jsstring

datatype text_stream =
    StreamEnd
  | StreamValue chunk text_stream
  | StreamFails js_error

text \<open>
  The value of \<open>languageModels[model]\<close>. Property access on an object literal finds the
  object's own properties and the members it inherits from \<open>Object.prototype\<close>.
\<close>

datatype lm_value = LmUndefined | LmName jsstring | LmInherited jsstring

text \<open>
  The external calls a handler makes, in order; \<open>ConsoleError\<close> is a \<open>console.error\<close>
  with its label.
\<close>

datatype call =
    GetUser jsstring
  | VerifyIdToken jsstring
  | StreamText lm_value "jsval list"
  | GenerateText lm_value "jsval list"
  | InsertChat jsstring jsstring
  | InsertMessages "message_row list"
  | SelectSessions jsstring
  | SelectChat jsstring jsstring
  | SelectChats jsstring
  | DeleteMessages "jsstring list"
  | DeleteChat jsstring "jsstring option"
  | DeleteChats jsstring
  | Fetch jsstring "jsval list" bool
  | ConsoleError string

record world =
  chats :: "chat_row list"
  messages :: "message_row list"
  calls :: "call list"

definition log :: "call \<Rightarrow> world \<Rightarrow> world" where
  "log c w = w\<lparr>calls := calls w @ [c]\<rparr>"

text \<open>Responses: a JSON body with its status, or a server-sent event stream (status 200).\<close>

datatype body =
    ErrorBody jsstring
  | InvalidRoleBody nat jsval
  | InvalidContentBody nat
  | CompletionBody jsstring "jsstring option" "jsstring option"
  | SuccessBody
  | SessionsBody "(chat_row \<times> message_row list) list"

datatype event = DeltaEvent jsstring | DoneEvent | ErrorEvent jsstring

datatype response = Json nat body | EventStream "event list" | Unhandled

text \<open>
  The behaviour of the collaborators during one request: the identity verifiers, the
  completion provider with the platform's \<open>TextDecoder\<close> (\<open>decode\<close> is
  \<open>new TextDecoder().decode\<close> on a chunk of bytes), and for each store operation whether
  the store reports an error. \<open>insert_chat\<close> is the \<open>id\<close> the store issues for a
  new chat, or \<open>None\<close> when the insert fails. \<open>groq_exchange\<close> is the response that the
  exchange with the Groq API leads to (lines 51 to 155 of \<open>api/chat.js\<close>, which relay the
  provider's answer), given the model, the messages, the stream flag and the formatted
  user id.
\<close>

record services =
  getUser :: "jsstring \<Rightarrow> get_user_result"
  verifyIdToken :: "jsstring \<Rightarrow> jsstring outcome"
  generateText :: "lm_value \<Rightarrow> jsval list \<Rightarrow> jsstring outcome"
  streamText :: "lm_value \<Rightarrow> jsval list \<Rightarrow> text_stream outcome"
  decode :: "8 word list \<Rightarrow> jsstring"
  insert_chat :: "jsstring option"
  insert_messages_ok :: bool
  select_ok :: bool
  delete_messages_ok :: bool
  delete_chats_ok :: bool
  groq_exchange :: "jsstring \<Rightarrow> jsval list \<Rightarrow> bool \<Rightarrow> jsstring \<Rightarrow> response"

section \<open>The relay handler with persistence\<close>

text \<open>
  \<^verbatim>\<open>
  const languageModels = {
    'grok-4': 'grok-4-latest',
    'grok-3': 'grok-3-latest',
    'grok-3-fast': 'grok-3-fast-latest',
    'grok-3-mini': 'grok-3-mini-latest',
    'grok-3-mini-fast': 'grok-3-mini-fast-latest',
  };
  \<close>
\<close>

definition languageModels :: "(jsstring \<times> jsstring) list" where
  "languageModels =
     [(str ''grok-4'', str ''grok-4-latest''),
      (str ''grok-3'', str ''grok-3-latest''),
      (str ''grok-3-fast'', str ''grok-3-fast-latest''),
      (str ''grok-3-mini'', str ''grok-3-mini-latest''),
      (str ''grok-3-mini-fast'', str ''grok-3-mini-fast-latest'')]"

text \<open>The property names every object inherits from \<open>Object.prototype\<close>.\<close>

definition object_prototype_members :: "jsstring list" where
  "object_prototype_members =
     map str [''constructor'', ''hasOwnProperty'', ''isPrototypeOf'',
              ''propertyIsEnumerable'', ''toLocaleString'', ''toString'', ''valueOf'',
              ''__proto__'', ''__defineGetter__'', ''__defineSetter__'',
              ''__lookupGetter__'', ''__lookupSetter__'']"

definition languageModels_get :: "jsstring \<Rightarrow> lm_value" where
  "languageModels_get model =
     (case map_of languageModels model of
        Some name \<Rightarrow> LmName name
      | None \<Rightarrow> if model \<in> set object_prototype_members then LmInherited model
                else LmUndefined)"

text \<open>An inherited member is a function or an object, hence truthy.\<close>

fun lm_truthy :: "lm_value \<Rightarrow> bool" where
  "lm_truthy LmUndefined = False"
| "lm_truthy (LmName name) = (name \<noteq> [])"
| "lm_truthy (LmInherited _) = True"

text \<open>\<open>s.replace(pat, rep)\<close> with a string pattern: the first occurrence is replaced.\<close>

fun replace_first :: "jsstring \<Rightarrow> jsstring \<Rightarrow> jsstring \<Rightarrow> jsstring" where
  "replace_first pat rep [] = (if pat = [] then rep else [])"
| "replace_first pat rep (c # cs) =
     (if take (length pat) (c # cs) = pat then rep @ drop (length pat) (c # cs)
      else c # replace_first pat rep cs)"

subsection \<open>saveToSupabase\<close>

text \<open>
  The error of reading a property of \<open>null\<close> or \<open>undefined\<close>, of calling \<open>replace\<close> on a
  value that has none, and of handing \<open>TextDecoder.decode\<close> a value that is not a buffer.
  The texts abbreviate those of the engine; the handlers pass them on unchanged.
\<close>

definition property_error :: "jsval \<Rightarrow> js_error" where
  "property_error v =
     TypeError (if v = JUndefined then str ''Cannot read properties of undefined''
                else str ''Cannot read properties of null'')"

definition not_a_function_error :: js_error where
  "not_a_function_error = TypeError (str ''content.replace is not a function'')"

definition not_a_buffer_error :: js_error where
  "not_a_buffer_error =
     TypeError (str ''The input argument must be an instance of ArrayBuffer or ArrayBufferView'')"

text \<open>
  \<open>messages.find(m => m.role === 'user')\<close>: the first element whose \<open>role\<close> is the string
  \<open>user\<close>. The callback reads \<open>m.role\<close> of each element up to that one, and throws on a
  \<open>null\<close> element.
\<close>

fun find_user :: "jsval list \<Rightarrow> jsval option outcome" where
  "find_user [] = Returns None"
| "find_user (m # rest) =
     (if nullish m then Throws (property_error m)
      else if prop_of (str ''role'') m = JStr (str ''user'') then Returns (Some m)
      else find_user rest)"

text \<open>
  \<open>messages.find(m => m.role === 'user')?.content || 'New chat'\<close>.
\<close>

definition firstUserContent :: "jsval list \<Rightarrow> jsval outcome" where
  "firstUserContent msgs =
     (case find_user msgs of
        Throws e \<Rightarrow> Throws e
      | Returns None \<Rightarrow> Returns (JStr (str ''New chat''))
      | Returns (Some m) \<Rightarrow>
          Returns (if truthy (prop_of (str ''content'') m) then prop_of (str ''content'') m
                   else JStr (str ''New chat'')))"

text \<open>
  \<open>allMessages.map(msg => ({ chat_id: newChatId, role: msg.role, content: msg.content }))\<close>.
\<close>

fun message_rows :: "jsstring \<Rightarrow> jsval list \<Rightarrow> message_row list outcome" where
  "message_rows newChatId [] = Returns []"
| "message_rows newChatId (msg # rest) =
     (if nullish msg then Throws (property_error msg)
      else (case message_rows newChatId rest of
              Throws e \<Rightarrow> Throws e
            | Returns rows \<Rightarrow>
                Returns (\<lparr>role = prop_of (str ''role'') msg, content = prop_of (str ''content'') msg,
                          chat_id = newChatId\<rparr> # rows)))"

text \<open>
  \<^verbatim>\<open>
  async function saveToSupabase(userId, messages, generatedText, chatId, sessionTitle, supabase) {
    let newChatId = chatId;
    try {
      if (!chatId) {
        const firstUserContent = messages.find(m => m.role === 'user')?.content || 'New chat';
        sessionTitle = generateChatTitle(firstUserContent);
        const { data, error } = await supabase.from('chats')
          .insert({ user_id: userId, title: sessionTitle }).select('id').single();
        if (error) { console.error('Error creating chat:', error);
                     throw new Error('Failed to create chat'); }
        newChatId = data.id;
        const allMessages = [...messages, { role: 'assistant', content: generatedText }];
        const inserts = allMessages.map(msg => ({
          chat_id: newChatId, role: msg.role, content: msg.content }));
        const { error: msgError } = await supabase.from('messages').insert(inserts);
        if (msgError) { console.error('Error saving messages:', msgError);
                        throw new Error('Failed to save messages'); }
      } else {
        const lastUserMessage = messages[messages.length - 1];
        const inserts = [
          { chat_id: chatId, role: lastUserMessage.role, content: lastUserMessage.content },
          { chat_id: chatId, role: 'assistant', content: generatedText } ];
        const { error } = await supabase.from('messages').insert(inserts);
        if (error) { console.error('Error appending messages:', error);
                     throw new Error('Failed to append messages'); }
      }
      return { newChatId, sessionTitle };
    } catch (error) { console.error('Error in saveToSupabase:', error); throw error; }
  }
  \<close>
  The result is the thrown error or the pair \<open>(newChatId, sessionTitle)\<close>, with the world
  after the calls. \<open>generateChatTitle\<close> of a content that is not a string throws a
  \<open>TypeError\<close> (\<open>content.replace\<close> is not a function), as does reading the \<open>role\<close> of a
  \<open>null\<close> element or of the last element of an empty list.
\<close>

definition rethrow :: "js_error \<Rightarrow> world \<Rightarrow> (js_error + 'a) \<times> world" where
  "rethrow e w = (Inl e, log (ConsoleError ''Error in saveToSupabase:'') w)"

definition saveToSupabase ::
  "services \<Rightarrow> jsstring \<Rightarrow> jsval list \<Rightarrow> jsstring \<Rightarrow> jsstring option \<Rightarrow> jsstring option
   \<Rightarrow> world \<Rightarrow> (js_error + (jsstring option \<times> jsstring option)) \<times> world" where
  "saveToSupabase svc userId msgs generatedText chatId sessionTitle w =
     (if \<not> truthy_str chatId then
        (case firstUserContent msgs of
           Throws e \<Rightarrow> rethrow e w
         | Returns (JStr c) \<Rightarrow>
             (let sessionTitle = generateChatTitle c;
                  w = log (InsertChat userId sessionTitle) w
              in case insert_chat svc of
                   None \<Rightarrow>
                     rethrow (Error (str ''Failed to create chat''))
                       (log (ConsoleError ''Error creating chat:'') w)
                 | Some newChatId \<Rightarrow>
                     (let w = w\<lparr>chats := chats w
                                @ [\<lparr>chat_row_id = newChatId, user_id = userId,
                                    title = sessionTitle\<rparr>]\<rparr>;
                          allMessages = msgs
                                @ [JObj [(str ''role'', JStr (str ''assistant'')),
                                         (str ''content'', JStr generatedText)]]
                      in case message_rows newChatId allMessages of
                           Throws e \<Rightarrow> rethrow e w
                         | Returns inserts \<Rightarrow>
                             (let w = log (InsertMessages inserts) w
                              in if insert_messages_ok svc
                                 then (Inr (Some newChatId, Some sessionTitle),
                                       w\<lparr>messages := messages w @ inserts\<rparr>)
                                 else rethrow (Error (str ''Failed to save messages''))
                                        (log (ConsoleError ''Error saving messages:'') w))))
         | Returns _ \<Rightarrow> rethrow not_a_function_error w)
      else
        (let lastUserMessage = (if msgs = [] then JUndefined else last msgs)
         in if nullish lastUserMessage then rethrow (property_error lastUserMessage) w
            else
              (let inserts = [\<lparr>role = prop_of (str ''role'') lastUserMessage,
                               content = prop_of (str ''content'') lastUserMessage,
                               chat_id = the chatId\<rparr>,
                              \<lparr>role = JStr (str ''assistant''), content = JStr generatedText,
                               chat_id = the chatId\<rparr>];
                   w = log (InsertMessages inserts) w
               in if insert_messages_ok svc
                  then (Inr (chatId, sessionTitle), w\<lparr>messages := messages w @ inserts\<rparr>)
                  else rethrow (Error (str ''Failed to append messages''))
                         (log (ConsoleError ''Error appending messages:'') w))))"

subsection \<open>The handler\<close>

text \<open>
  Lines 45 to 63 of the handler: the token check when \<open>userId\<close> is given. The result is
  the early response, or \<open>verifiedUserId\<close>.
  \<^verbatim>\<open>
  let verifiedUserId = null;
  if (userId) {
    const token = req.headers.authorization?.replace('Bearer ', '');
    if (!token) return res.status(401).json({ error: 'Authentication token required' });
    try {
      const { data: { user }, error } = await supabaseAdmin.auth.getUser(token);
      if (error || !user || user.id !== userId)
        return res.status(401).json({ error: 'Invalid or unauthorized token' });
      verifiedUserId = user.id;
    } catch (authError) {
      console.error('Authentication error:', authError);
      return res.status(401).json({ error: 'Authentication failed' });
    }
  }
  \<close>
\<close>

definition bearer_token :: "request \<Rightarrow> jsstring option" where
  "bearer_token req = map_option (replace_first (str ''Bearer '') []) (authorization req)"

definition authenticate ::
  "services \<Rightarrow> request \<Rightarrow> world \<Rightarrow> (response + jsstring option) \<times> world" where
  "authenticate svc req w =
     (if truthy_str (body_userId req) then
        (let token = bearer_token req
         in if \<not> truthy_str token
            then (Inl (Json 401 (ErrorBody (str ''Authentication token required''))), w)
            else
              (let w = log (GetUser (the token)) w
               in case getUser svc (the token) of
                    GetUserThrows \<Rightarrow>
                      (Inl (Json 401 (ErrorBody (str ''Authentication failed''))),
                       log (ConsoleError ''Authentication error:'') w)
                  | GetUserReturns error user \<Rightarrow>
                      if error \<or> user = None \<or> user \<noteq> body_userId req
                      then (Inl (Json 401 (ErrorBody (str ''Invalid or unauthorized token''))), w)
                      else (Inr user, w)))
      else (Inr None, w))"

text \<open>
  The read loop of the streaming branch: each value is decoded, appended to
  \<open>generatedText\<close> and written as a delta event. \<open>TextDecoder.decode\<close> takes a buffer and
  throws a \<open>TypeError\<close> on a string. The result is the error of a rejected read or of a
  failed decode if any, the text collected and the events written.
  \<^verbatim>\<open>
  while (true) {
    const { done, value } = await reader.read();
    if (done) break;
    const chunk = new TextDecoder().decode(value);
    generatedText += chunk;
    res.write(`data: ${JSON.stringify({ choices: [{ delta: { content: chunk } }] })}\n\n`);
  }
  \<close>
\<close>

fun read_loop ::
  "(8 word list \<Rightarrow> jsstring) \<Rightarrow> text_stream \<Rightarrow> jsstring \<Rightarrow> event list
   \<Rightarrow> js_error option \<times> jsstring \<times> event list" where
  "read_loop dec StreamEnd generatedText written = (None, generatedText, written)"
| "read_loop dec (StreamFails e) generatedText written = (Some e, generatedText, written)"
| "read_loop dec (StreamValue (Bytes v) rest) generatedText written =
     (let chunk = dec v
      in read_loop dec rest (generatedText @ chunk) (written @ [DeltaEvent chunk]))"
| "read_loop dec (StreamValue (Text v) rest) generatedText written =
     (Some not_a_buffer_error, generatedText, written)"

text \<open>
  The streaming branch (lines 73 to 127). The save is started after the \<open>[DONE]\<close> event is
  written and its rejection is only logged.
\<close>

definition stream_response ::
  "services \<Rightarrow> lm_value \<Rightarrow> jsval list \<Rightarrow> jsstring option \<Rightarrow> jsstring option \<Rightarrow> world
   \<Rightarrow> response \<times> world" where
  "stream_response svc modelInstance msgs verifiedUserId chatId w =
     (let w = log (StreamText modelInstance msgs) w
      in case streamText svc modelInstance msgs of
           Throws modelError \<Rightarrow>
             (Json 500 (ErrorBody (str ''Failed to initialize AI model: ''
                                   @ error_message modelError)),
              log (ConsoleError ''Model initialization error:'') w)
         | Returns textStream \<Rightarrow>
             (case read_loop (decode svc) textStream [] [] of
                (Some streamError, generatedText, written) \<Rightarrow>
                  (EventStream (written @ [ErrorEvent (str ''Stream failed: ''
                                                       @ error_message streamError)]),
                   log (ConsoleError ''Stream error:'') w)
              | (None, generatedText, written) \<Rightarrow>
                  (EventStream (written @ [DoneEvent]),
                   if truthy_str verifiedUserId
                   then (case saveToSupabase svc (the verifiedUserId) msgs generatedText
                                chatId None w of
                           (Inl error, w') \<Rightarrow> log (ConsoleError ''Error saving to Supabase:'') w'
                         | (Inr saved, w') \<Rightarrow> w')
                   else w)))"

text \<open>The buffered branch (lines 128 to 161).\<close>

definition buffered_response ::
  "services \<Rightarrow> lm_value \<Rightarrow> jsval list \<Rightarrow> jsstring option \<Rightarrow> jsstring option \<Rightarrow> world
   \<Rightarrow> response \<times> world" where
  "buffered_response svc modelInstance msgs verifiedUserId chatId w =
     (let w = log (GenerateText modelInstance msgs) w
      in case generateText svc modelInstance msgs of
           Throws generateError \<Rightarrow>
             (Json 500 (ErrorBody (str ''Failed to generate response: ''
                                   @ error_message generateError)),
              log (ConsoleError ''Text generation error:'') w)
         | Returns generatedText \<Rightarrow>
             if truthy_str verifiedUserId
             then (case saveToSupabase svc (the verifiedUserId) msgs generatedText
                          chatId None w of
                     (Inl generateError, w') \<Rightarrow>
                       (Json 500 (ErrorBody (str ''Failed to generate response: ''
                                             @ error_message generateError)),
                        log (ConsoleError ''Text generation error:'') w')
                   | (Inr (newChatId, sessionTitle), w') \<Rightarrow>
                       (Json 200 (CompletionBody generatedText newChatId sessionTitle), w'))
             else (Json 200 (CompletionBody generatedText chatId None), w))"

text \<open>
  \<^verbatim>\<open>
  export default async function handler(req, res) {
    if (req.method !== 'POST') return res.status(405).json({ error: 'Method not allowed' });
    const supabaseUrl = process.env.SUPABASE_URL; ...
    if (!supabaseUrl || !supabaseServiceKey || !xaiApiKey)
      return res.status(500).json({ error: 'Server configuration missing' });
    ...
    const { messages, model = 'grok-4', stream = true, userId, chatId } = req.body;
    if (!messages || !Array.isArray(messages) || messages.length === 0)
      return res.status(400).json({ error: 'Messages are required and must be an array' });
    if (!languageModels[model])
      return res.status(400).json({ error: `Invalid model: ${model}` });
    ... (token check)
    const modelInstance = xai(languageModels[model]);
    if (stream) { ... } else { ... }
  }
  \<close>
\<close>

text \<open>The defaults of the destructuring of \<open>req.body\<close>.\<close>

definition model_of :: "request \<Rightarrow> jsstring" where
  "model_of req = (case body_model req of None \<Rightarrow> str ''grok-4'' | Some m \<Rightarrow> m)"

definition stream_of :: "request \<Rightarrow> bool" where
  "stream_of req = (case body_stream req of None \<Rightarrow> True | Some b \<Rightarrow> b)"

definition configuration_missing :: "env \<Rightarrow> bool" where
  "configuration_missing e \<longleftrightarrow>
     \<not> truthy_str (SUPABASE_URL e) \<or> \<not> truthy_str (SUPABASE_SERVICE_ROLE_KEY e)
     \<or> \<not> truthy_str (XAI_API_KEY e)"

definition handler :: "env \<Rightarrow> services \<Rightarrow> request \<Rightarrow> world \<Rightarrow> response \<times> world" where
  "handler e svc req w =
     (if http_method req \<noteq> str ''POST''
      then (Json 405 (ErrorBody (str ''Method not allowed'')), w)
      else if configuration_missing e
      then (Json 500 (ErrorBody (str ''Server configuration missing'')), w)
      else
        (case body_messages req of
           None \<Rightarrow>
             (Json 400 (ErrorBody (str ''Messages are required and must be an array'')), w)
         | Some msgs \<Rightarrow>
             if msgs = []
             then (Json 400 (ErrorBody (str ''Messages are required and must be an array'')), w)
             else if \<not> lm_truthy (languageModels_get (model_of req))
             then (Json 400 (ErrorBody (str ''Invalid model: '' @ model_of req)), w)
             else
               (case authenticate svc req w of
                  (Inl early, w) \<Rightarrow> (early, w)
                | (Inr verifiedUserId, w) \<Rightarrow>
                    if stream_of req
                    then stream_response svc (languageModels_get (model_of req)) msgs
                           verifiedUserId (body_chatId req) w
                    else buffered_response svc (languageModels_get (model_of req)) msgs
                           verifiedUserId (body_chatId req) w)))"

section \<open>The Groq relay handler\<close>


fun is_string :: "jsval \<Rightarrow> bool" where
  "is_string (JStr _) = True"
| "is_string _ = False"





section \<open>The chat-history handlers\<close>

text \<open>
  The store's \<open>delete\<close> with a filter removes the rows that match; a delete that reports
  an error removes nothing.
\<close>

definition delete_messages_where :: "(message_row \<Rightarrow> bool) \<Rightarrow> world \<Rightarrow> world" where
  "delete_messages_where p w = w\<lparr>messages := filter (\<lambda>m. \<not> p m) (messages w)\<rparr>"

definition delete_chats_where :: "(chat_row \<Rightarrow> bool) \<Rightarrow> world \<Rightarrow> world" where
  "delete_chats_where p w = w\<lparr>chats := filter (\<lambda>c. \<not> p c) (chats w)\<rparr>"

text \<open>\<open>.select(...).eq(...).single()\<close>: an error unless exactly one row matches.\<close>

definition select_single :: "services \<Rightarrow> (chat_row \<Rightarrow> bool) \<Rightarrow> world \<Rightarrow> chat_row option" where
  "select_single svc p w =
     (if select_ok svc
      then (case filter p (chats w) of [c] \<Rightarrow> Some c | _ \<Rightarrow> None)
      else None)"

text \<open>
  \<open>handleDelete\<close> of \<open>New api/chat-history.js\<close>. The result is the response and the
  worlds the request passes through: the initial one, then the world after each store
  operation, the last being the final one.
  \<^verbatim>\<open>
  const decodedToken = await getAuth().verifyIdToken(token);
  const userId = decodedToken.uid;
  const { sessionId } = req.query;
  if (sessionId) {
    const { data: chat, error: chatError } = await supabaseAdmin.from('chats')
      .select('id').eq('id', sessionId).eq('user_id', userId).single();
    if (chatError || !chat) return res.status(404).json({ error: 'Chat not found' });
    // Delete messages first (foreign key constraint)
    const { error: messagesError } = await supabaseAdmin.from('messages')
      .delete().eq('chat_id', sessionId);
    if (messagesError) { ...; return res.status(500).json(...); }
    const { error: deleteError } = await supabaseAdmin.from('chats')
      .delete().eq('id', sessionId);
    if (deleteError) { ...; return res.status(500).json(...); }
    return res.status(200).json({ success: true });
  } else {
    const { data: userChats, error: userChatsError } = await supabaseAdmin.from('chats')
      .select('id').eq('user_id', userId);
    if (userChatsError) { ...; return res.status(500).json(...); }
    if (userChats && userChats.length > 0) {
      const chatIds = userChats.map(chat => chat.id);
      const { error: messagesError } = await supabaseAdmin.from('messages')
        .delete().in('chat_id', chatIds);
      if (messagesError) { ...; return res.status(500).json(...); }
      const { error: deleteError } = await supabaseAdmin.from('chats')
        .delete().eq('user_id', userId);
      if (deleteError) { ...; return res.status(500).json(...); }
    }
    return res.status(200).json({ success: true });
  }
  \<close>
\<close>

definition delete_session ::
  "services \<Rightarrow> jsstring \<Rightarrow> jsstring \<Rightarrow> world \<Rightarrow> response \<times> world list" where
  "delete_session svc userId sessionId w =
     (let w1 = log (SelectChat sessionId userId) w
      in case select_single svc (\<lambda>c. chat_row_id c = sessionId \<and> user_id c = userId) w1 of
           None \<Rightarrow> (Json 404 (ErrorBody (str ''Chat not found'')), [w, w1])
         | Some chat \<Rightarrow>
             (let w2 = log (DeleteMessages [sessionId]) w1
              in if \<not> delete_messages_ok svc
                 then (Json 500 (ErrorBody (str ''Failed to delete messages'')),
                       [w, w1, log (ConsoleError ''Error deleting messages:'') w2])
                 else
                   (let w3 = delete_messages_where (\<lambda>m. chat_id m = sessionId) w2;
                        w4 = log (DeleteChat sessionId None) w3
                    in if \<not> delete_chats_ok svc
                       then (Json 500 (ErrorBody (str ''Failed to delete chat'')),
                             [w, w1, w3, log (ConsoleError ''Error deleting chat:'') w4])
                       else (Json 200 SuccessBody,
                             [w, w1, w3,
                              delete_chats_where (\<lambda>c. chat_row_id c = sessionId) w4]))))"

definition delete_all_sessions ::
  "services \<Rightarrow> jsstring \<Rightarrow> world \<Rightarrow> response \<times> world list" where
  "delete_all_sessions svc userId w =
     (let w1 = log (SelectChats userId) w
      in if \<not> select_ok svc
         then (Json 500 (ErrorBody (str ''Failed to fetch user chats'')),
               [w, log (ConsoleError ''Error fetching user chats:'') w1])
         else
           (let userChats = filter (\<lambda>c. user_id c = userId) (chats w1)
            in if userChats = [] then (Json 200 SuccessBody, [w, w1])
               else
                 (let chatIds = map chat_row_id userChats;
                      w2 = log (DeleteMessages chatIds) w1
                  in if \<not> delete_messages_ok svc
                     then (Json 500 (ErrorBody (str ''Failed to delete messages'')),
                           [w, w1, log (ConsoleError ''Error deleting messages:'') w2])
                     else
                       (let w3 = delete_messages_where (\<lambda>m. chat_id m \<in> set chatIds) w2;
                            w4 = log (DeleteChats userId) w3
                        in if \<not> delete_chats_ok svc
                           then (Json 500 (ErrorBody (str ''Failed to delete chats'')),
                                 [w, w1, w3, log (ConsoleError ''Error deleting chats:'') w4])
                           else (Json 200 SuccessBody,
                                 [w, w1, w3,
                                  delete_chats_where (\<lambda>c. user_id c = userId) w4])))))"

definition history_configuration_missing :: "env \<Rightarrow> bool" where
  "history_configuration_missing e \<longleftrightarrow>
     \<not> truthy_str (SUPABASE_URL e) \<or> \<not> truthy_str (SUPABASE_SERVICE_ROLE_KEY e)"

definition handleDelete ::
  "env \<Rightarrow> services \<Rightarrow> request \<Rightarrow> world \<Rightarrow> response \<times> world list" where
  "handleDelete e svc req w =
     (if history_configuration_missing e
      then (Json 500 (ErrorBody (str ''Server configuration missing'')), [w])
      else
        (let token = bearer_token req
         in if \<not> truthy_str token
            then (Json 401 (ErrorBody (str ''Authentication token required'')), [w])
            else
              (let w0 = log (VerifyIdToken (the token)) w
               in case verifyIdToken svc (the token) of
                    Throws error \<Rightarrow>
                      (Json 500 (ErrorBody (if error_message error \<noteq> []
                                            then error_message error
                                            else str ''Internal server error'')),
                       [w, log (ConsoleError ''Chat history API error:'') w0])
                  | Returns userId \<Rightarrow>
                      if truthy_str (query_sessionId req)
                      then delete_session svc userId (the (query_sessionId req)) w0
                      else delete_all_sessions svc userId w0)))"

text \<open>
  The handler of \<open>api/chat-history.js\<close>, with the identity verifier of the store. Its
  \<open>DELETE\<close> branch issues one delete, on \<open>chats\<close>:
  \<^verbatim>\<open>
  const { data: { user }, error: authError } = await supabase.auth.getUser(token);
  if (authError || !user) return res.status(401).json({ error: 'Invalid token' });
  try {
    if (req.method === 'GET') {
      const { data, error } = await supabase.from('chats')
        .select('id, title, created_at, messages(id, role, content, created_at)')
        .eq('user_id', user.id).order('created_at', { ascending: false });
      if (error) throw error;
      return res.status(200).json({ sessions: data });
    } else if (req.method === 'DELETE') {
      const sessionId = req.query.sessionId;
      if (sessionId) {
        const { error } = await supabase.from('chats').delete()
          .eq('id', sessionId).eq('user_id', user.id);
        if (error) throw error;
      } else {
        const { error } = await supabase.from('chats').delete().eq('user_id', user.id);
        if (error) throw error;
      }
      return res.status(200).json({ success: true });
    } else {
      return res.status(405).json({ error: 'Method not allowed' });
    }
  } catch (error) { ...; return res.status(500).json({ error: 'Internal server error' }); }
  \<close>
  The rows of a table are kept in the order of their creation. \<open>getUser\<close> is awaited
  outside the \<open>try\<close>: when it throws, the handler's promise rejects (\<open>Unhandled\<close>).
\<close>

definition sessions_of :: "jsstring \<Rightarrow> world \<Rightarrow> (chat_row \<times> message_row list) list" where
  "sessions_of userId w =
     map (\<lambda>c. (c, filter (\<lambda>m. chat_id m = chat_row_id c) (messages w)))
         (rev (filter (\<lambda>c. user_id c = userId) (chats w)))"

definition history_failure :: "world \<Rightarrow> response \<times> world" where
  "history_failure w =
     (Json 500 (ErrorBody (str ''Internal server error'')), log (ConsoleError ''History error:'') w)"

definition chat_history_handler ::
  "env \<Rightarrow> services \<Rightarrow> request \<Rightarrow> world \<Rightarrow> response \<times> world" where
  "chat_history_handler e svc req w =
     (if history_configuration_missing e
      then (Json 500 (ErrorBody (str ''Configuration missing'')), w)
      else
        (let token = bearer_token req
         in if \<not> truthy_str token
            then (Json 401 (ErrorBody (str ''Authentication required'')), w)
            else
              (let w = log (GetUser (the token)) w
               in case getUser svc (the token) of
                    GetUserThrows \<Rightarrow> (Unhandled, w)
                  | GetUserReturns authError user \<Rightarrow>
                      if authError \<or> user = None
                      then (Json 401 (ErrorBody (str ''Invalid token'')), w)
                      else if http_method req = str ''GET''
                      then (let w = log (SelectSessions (the user)) w
                            in if select_ok svc
                               then (Json 200 (SessionsBody (sessions_of (the user) w)), w)
                               else history_failure w)
                      else if http_method req = str ''DELETE''
                      then (if truthy_str (query_sessionId req)
                            then (let sessionId = the (query_sessionId req);
                                      w = log (DeleteChat sessionId user) w
                                  in if delete_chats_ok svc
                                     then (Json 200 SuccessBody,
                                           delete_chats_where
                                             (\<lambda>c. chat_row_id c = sessionId
                                                  \<and> user_id c = the user) w)
                                     else history_failure w)
                            else (let w = log (DeleteChats (the user)) w
                                  in if delete_chats_ok svc
                                     then (Json 200 SuccessBody,
                                           delete_chats_where (\<lambda>c. user_id c = the user) w)
                                     else history_failure w))
                      else (Json 405 (ErrorBody (str ''Method not allowed'')), w))))"

text \<open>
  The invariant of the data model: every message row belongs to a chat row of the
  store.
\<close>

definition referential_integrity :: "world \<Rightarrow> bool" where
  "referential_integrity w \<longleftrightarrow>
     (\<forall>m \<in> set (messages w). chat_id m \<in> set (map chat_row_id (chats w)))"

section \<open>Notions of the specification\<close>

text \<open>
  A request is valid when it passes the checks of the relay handler that precede
  authentication: the method, the configuration, a non-empty list of messages and a
  model that resolves.
\<close>

definition valid_request :: "env \<Rightarrow> request \<Rightarrow> jsval list \<Rightarrow> bool" where
  "valid_request e req msgs \<longleftrightarrow>
     http_method req = str ''POST'' \<and> \<not> configuration_missing e
     \<and> body_messages req = Some msgs \<and> msgs \<noteq> []
     \<and> lm_truthy (languageModels_get (model_of req))"

text \<open>
  The caller supplies a bearer credential that the identity verifier confirms to map to
  exactly the subject \<open>uid\<close>.
\<close>

definition credential_confirms :: "services \<Rightarrow> request \<Rightarrow> jsstring \<Rightarrow> bool" where
  "credential_confirms svc req uid \<longleftrightarrow>
     (case bearer_token req of
        None \<Rightarrow> False
      | Some token \<Rightarrow> token \<noteq> [] \<and> getUser svc token = GetUserReturns False (Some uid))"

definition authenticated :: "services \<Rightarrow> request \<Rightarrow> jsstring \<Rightarrow> bool" where
  "authenticated svc req uid \<longleftrightarrow>
     body_userId req = Some uid \<and> uid \<noteq> [] \<and> credential_confirms svc req uid"




fun text_of :: "jsval \<Rightarrow> jsstring" where
  "text_of (JStr s) = s"
| "text_of _ = []"

text \<open>
  The title of a new session as the specification derives it: the title heuristic
  applied to the first user-role message ("New chat" when there is none).
\<close>

definition session_title :: "jsval list \<Rightarrow> jsstring" where
  "session_title msgs =
     (case find (\<lambda>m. prop_of (str ''role'') m = JStr (str ''user'')) msgs of
        None \<Rightarrow> str ''New chat''
      | Some m \<Rightarrow> generateChatTitle (text_of (prop_of (str ''content'') m)))"



text \<open>The calls to the persistence store and to the completion provider.\<close>

fun is_store_call :: "call \<Rightarrow> bool" where
  "is_store_call (InsertChat _ _) = True"
| "is_store_call (InsertMessages _) = True"
| "is_store_call (SelectSessions _) = True"
| "is_store_call (SelectChat _ _) = True"
| "is_store_call (SelectChats _) = True"
| "is_store_call (DeleteMessages _) = True"
| "is_store_call (DeleteChat _ _) = True"
| "is_store_call (DeleteChats _) = True"
| "is_store_call _ = False"

fun is_provider_call :: "call \<Rightarrow> bool" where
  "is_provider_call (StreamText _ _) = True"
| "is_provider_call (GenerateText _ _) = True"
| "is_provider_call (Fetch _ _ _) = True"
| "is_provider_call _ = False"

text \<open>What the caller sees of a response.\<close>

fun status_of :: "response \<Rightarrow> nat option" where
  "status_of (Json st _) = Some st"
| "status_of (EventStream _) = Some 200"
| "status_of Unhandled = None"

fun completion_text :: "response \<Rightarrow> jsstring option" where
  "completion_text (Json st (CompletionBody t _ _)) = (if st = 200 then Some t else None)"
| "completion_text _ = None"

fun delta_content :: "event \<Rightarrow> jsstring" where
  "delta_content (DeltaEvent chunk) = chunk"
| "delta_content _ = []"

fun streamed_text :: "response \<Rightarrow> jsstring" where
  "streamed_text (EventStream events) = concat (map delta_content events)"
| "streamed_text _ = []"

section \<open>Concrete scenarios\<close>

text \<open>
  One user \<open>u1\<close> with the token \<open>token-of-u1\<close>, a provider that answers \<open>Hi!\<close> (in two
  chunks of bytes when streaming), and a store that issues the chat id \<open>c1\<close>.
\<close>

definition example_env :: env where
  "example_env = \<lparr>SUPABASE_URL = Some (str ''https://db.example''),
                   SUPABASE_SERVICE_ROLE_KEY = Some (str ''service-key''),
                   XAI_API_KEY = Some (str ''xai-key''),
                   GROQ_API_KEY = Some (str ''groq-key'')\<rparr>"

text \<open>The JSON object \<open>{ "role": r, "content": c }\<close>.\<close>

definition message_of :: "string \<Rightarrow> string \<Rightarrow> jsval" where
  "message_of r c = JObj [(str ''role'', JStr (str r)), (str ''content'', JStr (str c))]"

definition hello :: "jsval list" where
  "hello = [message_of ''user'' ''Hello there world'']"

definition conversation :: "jsval list" where
  "conversation =
     [message_of ''system'' ''Be brief'', message_of ''user'' ''Hello there world'',
      message_of ''assistant'' ''Hi there'', message_of ''user'' ''How are you today'']"

definition example_services :: services where
  "example_services =
     \<lparr>getUser = (\<lambda>token. if token = str ''token-of-u1''
                          then GetUserReturns False (Some (str ''u1''))
                          else GetUserReturns True None),
      verifyIdToken = (\<lambda>token. if token = str ''token-of-u1'' then Returns (str ''u1'')
                                else Throws (Error (str ''invalid token''))),
      generateText = (\<lambda>m msgs. Returns (str ''Hi!'')),
      streamText = (\<lambda>m msgs. Returns (StreamValue (Bytes [0x48])
                                         (StreamValue (Bytes [0x69, 0x21]) StreamEnd))),
      decode = map ucast,
      insert_chat = Some (str ''c1''),
      insert_messages_ok = True,
      select_ok = True,
      delete_messages_ok = True,
      delete_chats_ok = True,
      groq_exchange = (\<lambda>model msgs stream uid. Json 200 (CompletionBody (str ''Hi!'') None None))\<rparr>"

text \<open>
  The provider as the \<open>ai\<close> package presents it: the values of \<open>textStream\<close> are the
  strings of the text deltas, here \<open>H\<close> and \<open>i!\<close>.
\<close>

definition sdk_services :: services where
  "sdk_services =
     example_services\<lparr>streamText :=
       (\<lambda>m msgs. Returns (StreamValue (Text (str ''H''))
                            (StreamValue (Text (str ''i!'')) StreamEnd)))\<rparr>"

text \<open>
  A provider whose answer is the one character U+00E9, in UTF-8 the bytes \<open>C3 A9\<close>,
  delivered in two chunks of one byte each. \<open>new TextDecoder().decode\<close> of a chunk that
  holds a lone lead byte or a lone continuation byte is the replacement character
  U+FFFD.
\<close>

definition byte_services :: services where
  "byte_services =
     example_services\<lparr>generateText := (\<lambda>m msgs. Returns [0x00E9]),
       streamText := (\<lambda>m msgs. Returns (StreamValue (Bytes [0xC3])
                                          (StreamValue (Bytes [0xA9]) StreamEnd))),
       decode := (\<lambda>v. if v = [0xC3, 0xA9] then [0x00E9]
                       else if v = [0xC3] then [0xFFFD]
                       else if v = [0xA9] then [0xFFFD]
                       else map ucast v)\<rparr>"

text \<open>A provider that refuses the prompt: \<open>generateText\<close> throws.\<close>

definition refusing_services :: services where
  "refusing_services =
     example_services\<lparr>generateText := (\<lambda>m msgs. Throws (Error (str ''Invalid prompt'')))\<rparr>"

definition empty_world :: world where
  "empty_world = \<lparr>chats = [], messages = [], calls = []\<rparr>"

definition buffered_request :: request where
  "buffered_request =
     \<lparr>http_method = str ''POST'', authorization = Some (str ''Bearer token-of-u1''),
      body_messages = Some hello, body_model = None, body_stream = Some False,
      body_userId = Some (str ''u1''), body_chatId = None, query_sessionId = None\<rparr>"

definition anonymous_request :: request where
  "anonymous_request = buffered_request\<lparr>authorization := None, body_userId := None\<rparr>"

definition constructor_request :: request where
  "constructor_request = anonymous_request\<lparr>body_model := Some (str ''constructor'')\<rparr>"

definition bad_messages :: "jsval list" where
  "bad_messages = [message_of ''moderator'' ''Hello there world'']"

definition bad_role_request :: request where
  "bad_role_request = anonymous_request\<lparr>body_messages := Some bad_messages\<rparr>"

definition empty_content_messages :: "jsval list" where
  "empty_content_messages = [message_of ''user'' []]"

definition empty_content_request :: request where
  "empty_content_request = anonymous_request\<lparr>body_messages := Some empty_content_messages\<rparr>"

definition null_messages :: "jsval list" where
  "null_messages = [JNull, message_of ''moderator'' ''Hello there world'']"

definition null_request :: request where
  "null_request = anonymous_request\<lparr>body_messages := Some null_messages\<rparr>"

definition new_conversation_request :: request where
  "new_conversation_request = buffered_request\<lparr>body_messages := Some conversation\<rparr>"

definition continuing_request :: request where
  "continuing_request =
     buffered_request\<lparr>body_messages := Some conversation, body_chatId := Some (str ''c1'')\<rparr>"

definition streaming_continuing_request :: request where
  "streaming_continuing_request = continuing_request\<lparr>body_stream := Some True\<rparr>"

definition no_credential_request :: request where
  "no_credential_request = buffered_request\<lparr>authorization := None\<rparr>"

definition history_world :: world where
  "history_world =
     \<lparr>chats = [\<lparr>chat_row_id = str ''c1'', user_id = str ''u1'',
                title = str ''Hello there world''\<rparr>],
      messages = [\<lparr>role = JStr (str ''user''), content = JStr (str ''Hello there world''),
                   chat_id = str ''c1''\<rparr>],
      calls = []\<rparr>"

definition delete_request :: request where
  "delete_request =
     \<lparr>http_method = str ''DELETE'', authorization = Some (str ''Bearer token-of-u1''),
      body_messages = None, body_model = None, body_stream = None,
      body_userId = None, body_chatId = None, query_sessionId = Some (str ''c1'')\<rparr>"

section \<open>Properties of the title heuristic\<close>

lemma words_of_Nil: "words_of [] = []"
  by (subst words_of.simps) simp

lemma words_of_dropWhile: "words_of (dropWhile is_space s) = words_of s"
  by (subst (1 2) words_of.simps) simp

lemma split_ws_no_space:
  "\<forall>c\<in>set s. \<not> is_space c \<Longrightarrow> split_ws s = [s]"
  by (subst split_ws.simps) (simp add: Let_def)

lemma words_of_no_space:
  assumes "\<forall>c\<in>set s. \<not> is_space c"
  shows "words_of s = (if s = [] then [] else [s])"
proof (cases s)
  case Nil
  then show ?thesis by (simp add: words_of_Nil)
next
  case (Cons c cs)
  with assms have "\<not> is_space c" by simp
  with Cons have d: "dropWhile is_space s = s" by simp
  from assms have t: "takeWhile (\<lambda>c. \<not> is_space c) s = s" by simp
  from assms have r: "dropWhile (\<lambda>c. \<not> is_space c) s = []" by simp
  from Cons have ne: "s \<noteq> []" by simp
  have "words_of s = takeWhile (\<lambda>c. \<not> is_space c) s
          # words_of (dropWhile (\<lambda>c. \<not> is_space c) s)"
    by (subst words_of.simps) (simp only: d Let_def ne if_False)
  then show ?thesis by (simp only: t r words_of_Nil ne if_False)
qed

lemma split_ws_step:
  "dropWhile (\<lambda>c. \<not> is_space c) s \<noteq> [] \<Longrightarrow>
   split_ws s = takeWhile (\<lambda>c. \<not> is_space c) s
                # split_ws (dropWhile is_space (dropWhile (\<lambda>c. \<not> is_space c) s))"
  by (subst split_ws.simps) (simp only: Let_def if_False)

lemma leading_space:
  "s \<noteq> [] \<Longrightarrow> is_space (hd s) \<Longrightarrow>
   dropWhile (\<lambda>c. \<not> is_space c) s = s \<and> takeWhile (\<lambda>c. \<not> is_space c) s = []"
  by (cases s) simp_all

lemma leading_word:
  "s \<noteq> [] \<Longrightarrow> \<not> is_space (hd s) \<Longrightarrow> takeWhile (\<lambda>c. \<not> is_space c) s \<noteq> []"
  by (cases s) simp_all

lemma words_of_leading_word:
  assumes "s \<noteq> []" "\<not> is_space (hd s)"
  shows "words_of s = takeWhile (\<lambda>c. \<not> is_space c) s
          # words_of (dropWhile (\<lambda>c. \<not> is_space c) s)"
proof -
  from assms have d: "dropWhile is_space s = s" by (cases s) simp_all
  show ?thesis
    by (subst words_of.simps) (simp only: d Let_def assms(1) if_False)
qed

text \<open>The words of a text are the non-empty pieces of the JavaScript split.\<close>

lemma words_of_split_ws: "words_of s = filter (\<lambda>w. w \<noteq> []) (split_ws s)"
proof (induction s rule: split_ws.induct)
  case (1 s)
  let ?piece = "takeWhile (\<lambda>c. \<not> is_space c) s"
  let ?rest = "dropWhile (\<lambda>c. \<not> is_space c) s"
  show ?case
  proof (cases "?rest = []")
    case True
    then have all: "\<forall>c\<in>set s. \<not> is_space c" by simp
    show ?thesis
      by (simp only: words_of_no_space [OF all] split_ws_no_space [OF all]) simp
  next
    case False
    note split = split_ws_step [OF False]
    have IH: "words_of (dropWhile is_space ?rest) =
        filter (\<lambda>w. w \<noteq> []) (split_ws (dropWhile is_space ?rest))"
      by (rule 1 [OF refl refl False])
    from False have ne: "s \<noteq> []" by auto
    show ?thesis
    proof (cases "is_space (hd s)")
      case True
      note ls = leading_space [OF ne True]
      have "words_of s = words_of (dropWhile is_space s)"
        by (simp only: words_of_dropWhile)
      also have "\<dots> = words_of (dropWhile is_space ?rest)"
        by (simp only: ls)
      also note IH
      finally show ?thesis
        by (subst split) (simp add: ls)
    next
      case False
      have "words_of s = ?piece # words_of ?rest"
        by (rule words_of_leading_word [OF ne False])
      also have "words_of ?rest = words_of (dropWhile is_space ?rest)"
        by (simp only: words_of_dropWhile)
      also note IH
      finally show ?thesis
        by (subst split) (simp add: leading_word [OF ne False])
    qed
  qed
qed

lemma join_with_Nil_iff:
  "\<forall>w\<in>set ws. w \<noteq> [] \<Longrightarrow> join_with sep ws = [] \<longleftrightarrow> ws = []"
  by (induction sep ws rule: join_with.induct) simp_all

lemma title_of_words:
  assumes ne: "\<forall>w\<in>set ws. w \<noteq> []" and dots: "dots \<noteq> []"
  shows "(let titleWords = take (min 3 (length ws)) ws;
              title = join_with sep titleWords;
              title = (if length title > 20 then take 17 title @ dots else title)
          in if title \<noteq> [] then title else fallback)
       = (if ws = [] then fallback
          else if 20 < length (join_with sep (take 3 ws))
               then take 17 (join_with sep (take 3 ws)) @ dots
          else join_with sep (take 3 ws))"
proof (cases ws)
  case Nil
  then show ?thesis by simp
next
  case (Cons w ws')
  have tk: "take (min 3 (length ws)) ws = take 3 ws"
    by (simp add: min_def)
  from ne have "\<forall>w\<in>set (take 3 ws). w \<noteq> []"
    by (auto dest: in_set_takeD)
  then have "join_with sep (take 3 ws) = [] \<longleftrightarrow> take 3 ws = []"
    by (rule join_with_Nil_iff)
  with Cons have J: "join_with sep (take 3 ws) \<noteq> []" by simp
  from Cons have ws: "ws \<noteq> []" by simp
  show ?thesis
    by (simp only: tk Let_def) (simp add: J ws dots)
qed

lemma surviving_words_split_ws:
  "surviving_words text =
     filter (\<lambda>word. length word > 2) (split_ws (trim (strip_markup text)))"
proof -
  have "(\<lambda>w::jsstring. w \<noteq> [] \<and> \<not> length w \<le> 2) = (\<lambda>w. 2 < length w)"
    by auto
  then show ?thesis
    by (simp add: surviving_words_def words_of_split_ws)
qed

lemma generateChatTitle_title_spec: "generateChatTitle text = title_spec text"
proof -
  have ne: "\<forall>w\<in>set (surviving_words text). w \<noteq> []"
    by (auto simp: surviving_words_def)
  have dots: "str ''...'' \<noteq> []"
    by (simp add: str_def)
  have "generateChatTitle text =
     (let titleWords = take (min 3 (length (surviving_words text))) (surviving_words text);
          title = join_with (str '' '') titleWords;
          title = (if length title > 20 then take 17 title @ str ''...'' else title)
      in if title \<noteq> [] then title else str ''New chat'')"
    by (simp only: generateChatTitle_def surviving_words_split_ws Let_def)
  also have "\<dots> = title_spec text"
    by (simp only: title_of_words [OF ne dots] title_spec_def joined_title_def)
  finally show ?thesis .
qed

lemma generateChatTitle_nonempty: "generateChatTitle text \<noteq> []"
proof -
  have "str ''New chat'' \<noteq> []" "str ''...'' \<noteq> []"
    by (simp_all add: str_def)
  then show ?thesis
    by (simp add: generateChatTitle_def Let_def)
qed

text \<open>
  Claim C5. For every input string the title heuristic computes the procedure of the
  specification (\<open>title_spec\<close>): markup characters stripped, white space trimmed, split
  on white-space runs, words of length at most 2 discarded, at most the first 3
  surviving words joined with single spaces, a result longer than 20 characters cut to
  17 characters plus \<open>...\<close>, and "New chat" when no word survives. In particular
  "## Hello World from AI!!" yields "Hello World from", the empty input and every input
  whose words all have length at most 2 yield "New chat", and a joined title of 25
  characters yields its first 17 characters plus the ellipsis (20 characters).
\<close>

theorem generateChatTitle_meets_spec:
  "generateChatTitle text = title_spec text
   \<and> generateChatTitle (str ''## Hello World from AI!!'') = str ''Hello World from''
   \<and> generateChatTitle [] = str ''New chat''
   \<and> ((\<forall>w\<in>set (words_of (trim (strip_markup text))). length w \<le> 2)
        \<longrightarrow> generateChatTitle text = str ''New chat'')
   \<and> (length (joined_title text) = 25
        \<longrightarrow> generateChatTitle text = take 17 (joined_title text) @ str ''...''
            \<and> length (generateChatTitle text) = 20)"
proof (intro conjI impI)
  show "generateChatTitle text = title_spec text"
    by (rule generateChatTitle_title_spec)
  show "generateChatTitle (str ''## Hello World from AI!!'') = str ''Hello World from''"
    by code_simp
  show "generateChatTitle [] = str ''New chat''"
    by code_simp
next
  assume "\<forall>w\<in>set (words_of (trim (strip_markup text))). length w \<le> 2"
  then have "surviving_words text = []"
    by (simp add: surviving_words_def)
  then show "generateChatTitle text = str ''New chat''"
    by (simp add: generateChatTitle_title_spec title_spec_def)
next
  assume len: "length (joined_title text) = 25"
  then have "joined_title text \<noteq> []" by auto
  then have "surviving_words text \<noteq> []"
    by (auto simp: joined_title_def)
  with len show t: "generateChatTitle text = take 17 (joined_title text) @ str ''...''"
    by (simp add: generateChatTitle_title_spec title_spec_def)
  from len show "length (generateChatTitle text) = 20"
    by (simp add: t str_def)
qed

theorem generateChatTitle_meets_spec_witness:
  "words_of (trim (strip_markup (str ''is it ok''))) = [str ''is'', str ''it'', str ''ok'']
   \<and> generateChatTitle (str ''is it ok'') = str ''New chat''
   \<and> length (joined_title (str ''*abcdefgh* ijklmnop qrstuvw xyz'')) = 25
   \<and> generateChatTitle (str ''*abcdefgh* ijklmnop qrstuvw xyz'') = str ''abcdefgh ijklmnop...''"
proof -
  have ws: "words_of (trim (strip_markup (str ''is it ok'')))
            = [str ''is'', str ''it'', str ''ok'']"
    by code_simp
  then have short:
    "\<forall>w\<in>set (words_of (trim (strip_markup (str ''is it ok'')))). length w \<le> 2"
    by (simp add: str_def)
  have long: "length (joined_title (str ''*abcdefgh* ijklmnop qrstuvw xyz'')) = 25"
    by code_simp
  have cut: "take 17 (joined_title (str ''*abcdefgh* ijklmnop qrstuvw xyz'')) @ str ''...''
             = str ''abcdefgh ijklmnop...''"
    by code_simp
  from short generateChatTitle_meets_spec [of "str ''is it ok''"]
  have "generateChatTitle (str ''is it ok'') = str ''New chat''"
    by blast
  moreover from long generateChatTitle_meets_spec [of "str ''*abcdefgh* ijklmnop qrstuvw xyz''"]
  have "generateChatTitle (str ''*abcdefgh* ijklmnop qrstuvw xyz'')
        = take 17 (joined_title (str ''*abcdefgh* ijklmnop qrstuvw xyz'')) @ str ''...''"
    by blast
  ultimately show ?thesis
    using ws long cut by simp
qed

section \<open>Literals, scenarios and the pieces of the handler\<close>

lemma unat_of_char: "unat (of_char c :: code_unit) = of_char c"
proof -
  have "(of_char c :: nat) < 256"
    by (metis of_char_mod_256 mod_less_divisor zero_less_numeral)
  then have "(of_char c :: nat) < 65536" by linarith
  then have "unat (word_of_nat (of_char c) :: code_unit) = of_char c"
    by (simp add: of_nat_inverse)
  then show ?thesis by (simp add: of_nat_of_char)
qed

lemma inj_code_unit: "inj (of_char :: char \<Rightarrow> code_unit)"
proof (rule injI)
  fix c d :: char
  assume "(of_char c :: code_unit) = of_char d"
  then have "unat (of_char c :: code_unit) = unat (of_char d :: code_unit)" by simp
  then show "c = d" by (simp add: unat_of_char)
qed

lemma str_eq_iff [simp]: "str a = str b \<longleftrightarrow> a = b"
  by (simp add: str_def inj_map_eq_map inj_code_unit)

lemma str_Nil_iff [simp]: "str a = [] \<longleftrightarrow> a = []"
  by (simp add: str_def)

lemma length_str [simp]: "length (str a) = length a"
  by (simp add: str_def)

lemma str_append: "str (a @ b) = str a @ str b"
  by (simp add: str_def)

lemmas scenario_defs = example_env_def example_services_def buffered_request_def
  anonymous_request_def constructor_request_def bad_role_request_def bad_messages_def
  empty_content_request_def empty_content_messages_def null_request_def null_messages_def
  new_conversation_request_def continuing_request_def streaming_continuing_request_def
  no_credential_request_def history_world_def delete_request_def empty_world_def hello_def
  conversation_def sdk_services_def byte_services_def refusing_services_def

lemma prop_of_message_of [simp]:
  "prop_of (str ''role'') (message_of r c) = JStr (str r)"
  "prop_of (str ''content'') (message_of r c) = JStr (str c)"
  by (simp_all add: message_of_def)

lemma nullish_message_of [simp]: "\<not> nullish (message_of r c)"
  by (simp add: message_of_def)

lemma bearer_example:
  "replace_first (str ''Bearer '') [] (str ''Bearer token-of-u1'') = str ''token-of-u1''"
  by code_simp

lemma title_hello: "generateChatTitle (str ''Hello there world'') = str ''Hello there world''"
  by code_simp

lemma title_fallback: "generateChatTitle (str ''New chat'') = str ''New chat''"
  by code_simp

lemma title_empty: "generateChatTitle [] = str ''New chat''"
  by code_simp

lemma lm_default: "languageModels_get (str ''grok-4'') = LmName (str ''grok-4-latest'')"
  by (simp add: languageModels_get_def languageModels_def)

lemma lm_constructor:
  "languageModels_get (str ''constructor'') = LmInherited (str ''constructor'')"
  by (simp add: languageModels_get_def languageModels_def object_prototype_members_def)

lemma empty_world_fields:
  "chats empty_world = []" "messages empty_world = []" "calls empty_world = []"
  by (simp_all add: empty_world_def)


lemma session_title_conversation: "session_title conversation = str ''Hello there world''"
  by (simp add: session_title_def conversation_def title_hello)

lemma valid_anonymous: "valid_request example_env anonymous_request hello"
  by (simp add: valid_request_def configuration_missing_def truthy_str_def scenario_defs
      model_of_def lm_default)

lemma valid_new_conversation: "valid_request example_env new_conversation_request conversation"
  by (simp add: valid_request_def configuration_missing_def truthy_str_def scenario_defs
      model_of_def lm_default)

lemma authenticated_new_conversation:
  "authenticated example_services new_conversation_request (str ''u1'')"
  by (simp add: authenticated_def credential_confirms_def bearer_token_def bearer_example
      scenario_defs)





text \<open>A valid request reaches the token check and then one of the two branches.\<close>

lemma handler_valid:
  assumes "valid_request e req msgs"
  shows "handler e svc req w =
     (case authenticate svc req w of
        (Inl early, w') \<Rightarrow> (early, w')
      | (Inr verifiedUserId, w') \<Rightarrow>
          if stream_of req
          then stream_response svc (languageModels_get (model_of req)) msgs
                 verifiedUserId (body_chatId req) w'
          else buffered_response svc (languageModels_get (model_of req)) msgs
                 verifiedUserId (body_chatId req) w')"
  using assms by (simp add: handler_def valid_request_def)

lemma authenticate_ok:
  assumes "authenticated svc req uid"
  shows "authenticate svc req w = (Inr (Some uid), log (GetUser (the (bearer_token req))) w)"
  using assms
  by (auto simp: authenticate_def authenticated_def credential_confirms_def truthy_str_def
      Let_def split: option.splits)

lemma authenticate_anonymous:
  assumes "\<not> truthy_str (body_userId req)"
  shows "authenticate svc req w = (Inr None, w)"
  using assms by (simp add: authenticate_def)

lemma authenticate_rejects:
  assumes "body_userId req = Some uid" "uid \<noteq> []" "\<not> credential_confirms svc req uid"
  shows "\<exists>b w'. authenticate svc req w = (Inl (Json 401 b), w')
           \<and> chats w' = chats w \<and> messages w' = messages w
           \<and> filter is_store_call (calls w') = filter is_store_call (calls w)
           \<and> filter is_provider_call (calls w') = filter is_provider_call (calls w)"
  using assms
  by (auto simp: authenticate_def credential_confirms_def truthy_str_def log_def
      Let_def split: option.splits get_user_result.splits)


lemma string_content_not_nullish: "is_string (prop_of k m) \<Longrightarrow> \<not> nullish m"
  by (cases m) simp_all

lemma find_user_find:
  "\<forall>m\<in>set msgs. \<not> nullish m \<Longrightarrow>
   find_user msgs = Returns (find (\<lambda>m. prop_of (str ''role'') m = JStr (str ''user'')) msgs)"
  by (induction msgs) simp_all

lemma message_rows_append:
  "message_rows cid (msgs @ [JObj kvs]) =
     (case find nullish msgs of
        None \<Rightarrow> Returns (map (\<lambda>m. \<lparr>role = prop_of (str ''role'') m,
                                     content = prop_of (str ''content'') m, chat_id = cid\<rparr>)
                            (msgs @ [JObj kvs]))
      | Some m \<Rightarrow> Throws (property_error m))"
  by (induction msgs) (simp_all split: option.splits)

lemma find_nullish_None: "\<forall>m\<in>set msgs. \<not> nullish m \<Longrightarrow> find nullish msgs = None"
  by (simp add: find_None_iff)

lemma firstUserContent_strings:
  assumes "\<forall>m\<in>set msgs. is_string (prop_of (str ''content'') m)"
  shows "\<exists>c. firstUserContent msgs = Returns (JStr c)
           \<and> generateChatTitle c = session_title msgs"
proof -
  from assms have nn: "\<forall>m\<in>set msgs. \<not> nullish m"
    by (auto dest: string_content_not_nullish)
  show ?thesis
  proof (cases "find (\<lambda>m. prop_of (str ''role'') m = JStr (str ''user'')) msgs")
    case None
    then show ?thesis
      by (simp add: firstUserContent_def find_user_find [OF nn] session_title_def
          title_fallback)
  next
    case (Some m)
    then have "m \<in> set msgs"
      by (auto simp: find_Some_iff in_set_conv_nth)
    with assms obtain c where c: "prop_of (str ''content'') m = JStr c"
      by (cases "prop_of (str ''content'') m") auto
    show ?thesis
    proof (cases "c = []")
      case True
      with Some c show ?thesis
        by (simp add: firstUserContent_def find_user_find [OF nn] session_title_def
            title_fallback title_empty)
    next
      case False
      with Some c show ?thesis
        by (simp add: firstUserContent_def find_user_find [OF nn] session_title_def)
    qed
  qed
qed

lemma saveToSupabase_new:
  assumes "\<not> truthy_str chatId" "firstUserContent msgs = Returns (JStr c)"
    "insert_chat svc = Some cid" "insert_messages_ok svc" "\<forall>m\<in>set msgs. \<not> nullish m"
  shows "saveToSupabase svc uid msgs generatedText chatId sessionTitle w =
     (Inr (Some cid, Some (generateChatTitle c)),
      w\<lparr>chats := chats w @ [\<lparr>chat_row_id = cid, user_id = uid, title = generateChatTitle c\<rparr>],
        messages := messages w
          @ map (\<lambda>m. \<lparr>role = prop_of (str ''role'') m, content = prop_of (str ''content'') m,
                       chat_id = cid\<rparr>) msgs
          @ [\<lparr>role = JStr (str ''assistant''), content = JStr generatedText, chat_id = cid\<rparr>],
        calls := calls w @ [InsertChat uid (generateChatTitle c),
                            InsertMessages
                              (map (\<lambda>m. \<lparr>role = prop_of (str ''role'') m,
                                          content = prop_of (str ''content'') m,
                                          chat_id = cid\<rparr>) msgs
                               @ [\<lparr>role = JStr (str ''assistant''),
                                   content = JStr generatedText, chat_id = cid\<rparr>])]\<rparr>)"
  using assms(1-4)
  by (simp add: saveToSupabase_def Let_def log_def message_rows_append
      find_nullish_None [OF assms(5)])


lemma buffered_response_saved:
  assumes "generateText svc lm msgs = Returns generatedText"
    and "saveToSupabase svc uid msgs generatedText chatId None (log (GenerateText lm msgs) w)
           = (Inr (newChatId, sessionTitle), w')"
    and "uid \<noteq> []"
  shows "buffered_response svc lm msgs (Some uid) chatId w
           = (Json 200 (CompletionBody generatedText newChatId sessionTitle), w')"
  using assms by (simp add: buffered_response_def Let_def truthy_str_def)


lemma buffered_response_anonymous:
  assumes "generateText svc lm msgs = Returns generatedText"
  shows "buffered_response svc lm msgs None chatId w
           = (Json 200 (CompletionBody generatedText chatId None), log (GenerateText lm msgs) w)"
  using assms by (simp add: buffered_response_def Let_def truthy_str_def)

section \<open>Persistence\<close>

text \<open>
  Claim C10. Session creation in the persistence step is not atomic: when the insert of
  the new session row succeeds and the insert of the message rows that follows fails,
  \<open>saveToSupabase\<close> throws "Failed to save messages" (when an element of \<open>messages\<close> is
  \<open>null\<close>, the \<open>TypeError\<close> of reading its role, before the insert is attempted) while the
  session row it created stays in the store and no message row was added, so the new
  session has no messages (its identifier being fresh among the message rows).
\<close>

theorem saveToSupabase_not_atomic:
  assumes "\<not> truthy_str chatId" and "firstUserContent msgs = Returns (JStr c)"
    and "insert_chat svc = Some newChatId" and "\<not> insert_messages_ok svc"
  shows "fst (saveToSupabase svc userId msgs generatedText chatId sessionTitle w)
           = Inl (case find nullish msgs of
                    None \<Rightarrow> Error (str ''Failed to save messages'')
                  | Some m \<Rightarrow> property_error m)
       \<and> chats (snd (saveToSupabase svc userId msgs generatedText chatId sessionTitle w))
           = chats w @ [\<lparr>chat_row_id = newChatId, user_id = userId,
                         title = generateChatTitle c\<rparr>]
       \<and> messages (snd (saveToSupabase svc userId msgs generatedText chatId sessionTitle w))
           = messages w
       \<and> (newChatId \<notin> set (map chat_id (messages w)) \<longrightarrow>
            filter (\<lambda>m. chat_id m = newChatId)
              (messages (snd (saveToSupabase svc userId msgs generatedText chatId
                                sessionTitle w))) = [])"
  using assms
  by (auto simp: saveToSupabase_def Let_def log_def rethrow_def filter_empty_conv
      message_rows_append split: option.splits)

theorem saveToSupabase_not_atomic_witness:
  "firstUserContent conversation = Returns (JStr (str ''Hello there world''))
   \<and> fst (saveToSupabase (example_services\<lparr>insert_messages_ok := False\<rparr>) (str ''u1'')
            conversation (str ''Hi!'') None None empty_world)
       = Inl (Error (str ''Failed to save messages''))
   \<and> chats (snd (saveToSupabase (example_services\<lparr>insert_messages_ok := False\<rparr>) (str ''u1'')
                    conversation (str ''Hi!'') None None empty_world))
       = [\<lparr>chat_row_id = str ''c1'', user_id = str ''u1'', title = str ''Hello there world''\<rparr>]
   \<and> filter (\<lambda>m. chat_id m = str ''c1'')
        (messages (snd (saveToSupabase (example_services\<lparr>insert_messages_ok := False\<rparr>)
                          (str ''u1'') conversation (str ''Hi!'') None None empty_world))) = []"
proof -
  have c: "firstUserContent conversation = Returns (JStr (str ''Hello there world''))"
    by (simp add: firstUserContent_def conversation_def)
  have h: "\<not> truthy_str None"
    "insert_chat (example_services\<lparr>insert_messages_ok := False\<rparr>) = Some (str ''c1'')"
    "\<not> insert_messages_ok (example_services\<lparr>insert_messages_ok := False\<rparr>)"
    by (simp_all add: truthy_str_def example_services_def)
  have n: "find nullish conversation = None"
    by (simp add: conversation_def)
  from saveToSupabase_not_atomic [OF h(1) c h(2,3), of "str ''u1''" "str ''Hi!''" None empty_world]
  show ?thesis
    by (simp add: c n title_hello empty_world_fields)
qed

text \<open>
  Claim C3. For every valid authenticated buffered request without a session
  identifier (the provider returning a text, the store accepting both inserts, the
  message contents being strings), the handler creates one session row, owned by the
  verified user, whose title is the title heuristic applied to the first user-role
  message; it inserts exactly \<open>length msgs + 1\<close> message rows: for every request message
  in order a row with that message's role and content, then a row with the role
  \<open>assistant\<close> and the generated text, each with the new session identifier as its
  \<open>chat_id\<close>; and it responds 200 with the generated text, that session identifier and
  the title, which is not empty.
\<close>

theorem new_session_persisted:
  assumes valid: "valid_request e req msgs"
    and auth: "authenticated svc req uid"
    and buffered: "\<not> stream_of req"
    and new: "\<not> truthy_str (body_chatId req)"
    and strings: "\<forall>m\<in>set msgs. is_string (prop_of (str ''content'') m)"
    and gen: "generateText svc (languageModels_get (model_of req)) msgs = Returns generatedText"
    and store: "insert_chat svc = Some cid" "insert_messages_ok svc"
  shows "fst (handler e svc req w)
           = Json 200 (CompletionBody generatedText (Some cid) (Some (session_title msgs)))
       \<and> session_title msgs \<noteq> []
       \<and> chats (snd (handler e svc req w))
           = chats w @ [\<lparr>chat_row_id = cid, user_id = uid, title = session_title msgs\<rparr>]
       \<and> messages (snd (handler e svc req w))
           = messages w
             @ map (\<lambda>m. \<lparr>role = prop_of (str ''role'') m, content = prop_of (str ''content'') m,
                          chat_id = cid\<rparr>) msgs
             @ [\<lparr>role = JStr (str ''assistant''), content = JStr generatedText,
                 chat_id = cid\<rparr>]
       \<and> length (messages (snd (handler e svc req w))) = length (messages w) + (length msgs + 1)
       \<and> filter is_store_call (calls (snd (handler e svc req w)))
           = filter is_store_call (calls w)
             @ [InsertChat uid (session_title msgs),
                InsertMessages
                  (map (\<lambda>m. \<lparr>role = prop_of (str ''role'') m, content = prop_of (str ''content'') m,
                              chat_id = cid\<rparr>) msgs
                   @ [\<lparr>role = JStr (str ''assistant''), content = JStr generatedText,
                       chat_id = cid\<rparr>])]"
proof -
  from strings obtain c where c: "firstUserContent msgs = Returns (JStr c)"
    and t: "generateChatTitle c = session_title msgs"
    using firstUserContent_strings by blast
  from strings have nn: "\<forall>m\<in>set msgs. \<not> nullish m"
    by (auto dest: string_content_not_nullish)
  from auth have uid: "uid \<noteq> []" by (simp add: authenticated_def)
  let ?lm = "languageModels_get (model_of req)"
  let ?w1 = "log (GenerateText ?lm msgs) (log (GetUser (the (bearer_token req))) w)"
  let ?rows = "map (\<lambda>m. \<lparr>role = prop_of (str ''role'') m, content = prop_of (str ''content'') m,
                          chat_id = cid\<rparr>) msgs
               @ [\<lparr>role = JStr (str ''assistant''), content = JStr generatedText,
                   chat_id = cid\<rparr>]"
  note save = saveToSupabase_new [OF new c store nn]
  have "handler e svc req w = buffered_response svc ?lm msgs (Some uid) (body_chatId req)
          (log (GetUser (the (bearer_token req))) w)"
    using buffered by (simp add: handler_valid [OF valid] authenticate_ok [OF auth])
  also note buffered_response_saved [OF gen save uid]
  finally have h: "handler e svc req w =
      (Json 200 (CompletionBody generatedText (Some cid) (Some (generateChatTitle c))),
       ?w1\<lparr>chats := chats ?w1 @ [\<lparr>chat_row_id = cid, user_id = uid,
                                     title = generateChatTitle c\<rparr>],
           messages := messages ?w1 @ ?rows,
           calls := calls ?w1 @ [InsertChat uid (generateChatTitle c),
                                 InsertMessages ?rows]\<rparr>)" .
  have ne: "session_title msgs \<noteq> []"
    using generateChatTitle_nonempty [of c] by (simp add: t)
  show ?thesis
    by (simp add: h t ne log_def)
qed

theorem new_session_persisted_witness:
  "valid_request example_env new_conversation_request conversation
   \<and> authenticated example_services new_conversation_request (str ''u1'')
   \<and> fst (handler example_env example_services new_conversation_request empty_world)
       = Json 200 (CompletionBody (str ''Hi!'') (Some (str ''c1''))
                     (Some (str ''Hello there world'')))
   \<and> chats (snd (handler example_env example_services new_conversation_request empty_world))
       = [\<lparr>chat_row_id = str ''c1'', user_id = str ''u1'', title = str ''Hello there world''\<rparr>]
   \<and> messages (snd (handler example_env example_services new_conversation_request
                       empty_world))
       = [\<lparr>role = JStr (str ''system''), content = JStr (str ''Be brief''),
           chat_id = str ''c1''\<rparr>,
          \<lparr>role = JStr (str ''user''), content = JStr (str ''Hello there world''),
           chat_id = str ''c1''\<rparr>,
          \<lparr>role = JStr (str ''assistant''), content = JStr (str ''Hi there''),
           chat_id = str ''c1''\<rparr>,
          \<lparr>role = JStr (str ''user''), content = JStr (str ''How are you today''),
           chat_id = str ''c1''\<rparr>,
          \<lparr>role = JStr (str ''assistant''), content = JStr (str ''Hi!''),
           chat_id = str ''c1''\<rparr>]
   \<and> filter is_store_call
        (calls (snd (handler example_env example_services new_conversation_request
                       empty_world)))
       = [InsertChat (str ''u1'') (str ''Hello there world''),
          InsertMessages
            [\<lparr>role = JStr (str ''system''), content = JStr (str ''Be brief''),
              chat_id = str ''c1''\<rparr>,
             \<lparr>role = JStr (str ''user''), content = JStr (str ''Hello there world''),
              chat_id = str ''c1''\<rparr>,
             \<lparr>role = JStr (str ''assistant''), content = JStr (str ''Hi there''),
              chat_id = str ''c1''\<rparr>,
             \<lparr>role = JStr (str ''user''), content = JStr (str ''How are you today''),
              chat_id = str ''c1''\<rparr>,
             \<lparr>role = JStr (str ''assistant''), content = JStr (str ''Hi!''),
              chat_id = str ''c1''\<rparr>]]"
proof -
  have h: "\<not> stream_of new_conversation_request"
    "\<not> truthy_str (body_chatId new_conversation_request)"
    "\<forall>m\<in>set conversation. is_string (prop_of (str ''content'') m)"
    "generateText example_services (languageModels_get (model_of new_conversation_request))
       conversation = Returns (str ''Hi!'')"
    "insert_chat example_services = Some (str ''c1'')" "insert_messages_ok example_services"
    by (simp_all add: stream_of_def truthy_str_def scenario_defs)
  have rows: "map (\<lambda>m. \<lparr>role = prop_of (str ''role'') m, content = prop_of (str ''content'') m,
                        chat_id = str ''c1''\<rparr>) conversation
      = [\<lparr>role = JStr (str ''system''), content = JStr (str ''Be brief''),
          chat_id = str ''c1''\<rparr>,
         \<lparr>role = JStr (str ''user''), content = JStr (str ''Hello there world''),
          chat_id = str ''c1''\<rparr>,
         \<lparr>role = JStr (str ''assistant''), content = JStr (str ''Hi there''),
          chat_id = str ''c1''\<rparr>,
         \<lparr>role = JStr (str ''user''), content = JStr (str ''How are you today''),
          chat_id = str ''c1''\<rparr>]"
    by (simp add: conversation_def)
  from new_session_persisted
         [OF valid_new_conversation authenticated_new_conversation h, of empty_world]
  show ?thesis
    by (simp add: valid_new_conversation authenticated_new_conversation
        session_title_conversation empty_world_fields rows)
qed




section \<open>Persistence failures and the response\<close>

text \<open>
  In incremental mode the response does not depend on what the store does: the events
  are written before the save is started, and a rejected save is only logged.
\<close>

lemma stream_response_ignores_store:
  "fst (stream_response (svc\<lparr>insert_chat := ic, insert_messages_ok := ok\<rparr>) lm msgs v chatId w)
     = fst (stream_response svc lm msgs v chatId w)"
  by (simp add: stream_response_def Let_def split: outcome.splits prod.splits option.splits)

text \<open>
  Claim C1 states that a failure of the persistence save never changes the
  caller-visible outcome of a request whose completion the provider has computed, in
  buffered mode as in incremental mode. In buffered mode the handler awaits the save
  inside the \<open>try\<close> of the text generation: for the authenticated buffered request below
  the provider returns \<open>Hi!\<close>, the insert of the chat row fails, and the handler responds
  500 "Failed to generate response: Failed to create chat" instead of 200 with the
  completion text.
\<close>

theorem buffered_save_failure:
  "generateText (example_services\<lparr>insert_chat := None\<rparr>)
     (languageModels_get (model_of buffered_request)) hello = Returns (str ''Hi!'')
   \<and> fst (handler example_env (example_services\<lparr>insert_chat := None\<rparr>) buffered_request
            empty_world)
       = Json 500 (ErrorBody (str ''Failed to generate response: Failed to create chat''))"
  by (simp add: handler_def configuration_missing_def truthy_str_def scenario_defs
      model_of_def stream_of_def lm_default authenticate_def bearer_token_def bearer_example
      buffered_response_def saveToSupabase_def firstUserContent_def log_def rethrow_def
      title_hello Let_def str_append [symmetric])

section \<open>Incremental and buffered mode\<close>

lemma anonymous_stream_request:
  "handler example_env svc (anonymous_request\<lparr>body_stream := Some True\<rparr>) w
     = stream_response svc (LmName (str ''grok-4-latest'')) hello None None w"
  by (simp add: handler_def configuration_missing_def truthy_str_def scenario_defs
      model_of_def stream_of_def lm_default authenticate_def)

lemma anonymous_buffered_request:
  "handler example_env svc (anonymous_request\<lparr>body_stream := Some False\<rparr>) w
     = buffered_response svc (LmName (str ''grok-4-latest'')) hello None None w"
  by (simp add: handler_def configuration_missing_def truthy_str_def scenario_defs
      model_of_def stream_of_def lm_default authenticate_def)

text \<open>
  Claim C6 states that for every valid request and a deterministic provider, the
  concatenation in order of the \<open>delta.content\<close> fragments forwarded in incremental mode
  is exactly the text that buffered mode returns for the same input. The read loop
  hands each value of the provider's \<open>textStream\<close> to \<open>new TextDecoder().decode\<close>.
  The values of that stream are strings: for the request below, which buffered mode
  answers with the text \<open>Hi!\<close>, the decode of the first value \<open>H\<close> throws, and the
  handler forwards no fragment at all, only the error event, without the terminal
  event. When the values are chunks of bytes, each chunk is decoded on its own: for the
  provider whose text is the character U+00E9, streamed as the two bytes \<open>C3\<close> and
  \<open>A9\<close>, the forwarded fragments are two replacement characters U+FFFD, while buffered
  mode returns U+00E9.
\<close>

theorem streamed_text_differs_from_buffered:
  "valid_request example_env anonymous_request hello
   \<and> generateText sdk_services (languageModels_get (model_of anonymous_request)) hello
       = Returns (str ''Hi!'')
   \<and> streamText sdk_services (languageModels_get (model_of anonymous_request)) hello
       = Returns (StreamValue (Text (str ''H'')) (StreamValue (Text (str ''i!'')) StreamEnd))
   \<and> completion_text (fst (handler example_env sdk_services
                             (anonymous_request\<lparr>body_stream := Some False\<rparr>) empty_world))
       = Some (str ''Hi!'')
   \<and> fst (handler example_env sdk_services (anonymous_request\<lparr>body_stream := Some True\<rparr>)
            empty_world)
       = EventStream [ErrorEvent (str ''Stream failed: '' @ error_message not_a_buffer_error)]
   \<and> streamed_text (fst (handler example_env sdk_services
                           (anonymous_request\<lparr>body_stream := Some True\<rparr>) empty_world))
       = []
   \<and> completion_text (fst (handler example_env byte_services
                             (anonymous_request\<lparr>body_stream := Some False\<rparr>) empty_world))
       = Some [0x00E9]
   \<and> fst (handler example_env byte_services (anonymous_request\<lparr>body_stream := Some True\<rparr>)
            empty_world)
       = EventStream [DeltaEvent [0xFFFD], DeltaEvent [0xFFFD], DoneEvent]
   \<and> streamed_text (fst (handler example_env byte_services
                           (anonymous_request\<lparr>body_stream := Some True\<rparr>) empty_world))
       = [0xFFFD, 0xFFFD]"
proof -
  have g: "generateText sdk_services lm hello = Returns (str ''Hi!'')"
    "streamText sdk_services lm hello
       = Returns (StreamValue (Text (str ''H'')) (StreamValue (Text (str ''i!'')) StreamEnd))"
    for lm
    by (simp_all add: sdk_services_def example_services_def)
  have b1: "fst (buffered_response sdk_services lm hello None None w)
              = Json 200 (CompletionBody (str ''Hi!'') None None)" for lm w
    by (simp add: buffered_response_def truthy_str_def Let_def sdk_services_def
        example_services_def)
  have s1: "fst (stream_response sdk_services lm hello None None w)
              = EventStream [ErrorEvent (str ''Stream failed: ''
                                         @ error_message not_a_buffer_error)]" for lm w
    by (simp add: stream_response_def Let_def sdk_services_def example_services_def)
  have b2: "fst (buffered_response byte_services lm hello None None w)
              = Json 200 (CompletionBody [0x00E9] None None)" for lm w
    by (simp add: buffered_response_def truthy_str_def Let_def byte_services_def
        example_services_def)
  have s2: "fst (stream_response byte_services lm hello None None w)
              = EventStream [DeltaEvent [0xFFFD], DeltaEvent [0xFFFD], DoneEvent]" for lm w
    by (simp add: stream_response_def truthy_str_def Let_def byte_services_def
        example_services_def)
  show ?thesis
    by (simp add: valid_anonymous g anonymous_stream_request anonymous_buffered_request
        b1 s1 b2 s2)
qed

section \<open>Validation and authentication\<close>

text \<open>
  Claim C7 states that every request whose model is not a key of the static model
  mapping is answered 400 before any call to the completion provider. The handler tests
  \<open>!languageModels[model]\<close>, and the property access also finds the members that the
  mapping inherits from \<open>Object.prototype\<close>: for the model \<open>constructor\<close>, which is not a
  key of the mapping, the test passes and the handler calls the provider's
  \<open>generateText\<close>, whatever the collaborators do; its status is not 400.
\<close>

theorem inherited_model_reaches_provider:
  "map_of languageModels (str ''constructor'') = None
   \<and> GenerateText (LmInherited (str ''constructor'')) hello
       \<in> set (calls (snd (handler example_env svc constructor_request w)))
   \<and> status_of (fst (handler example_env svc constructor_request w)) \<noteq> Some 400"
  by (auto simp: handler_def configuration_missing_def truthy_str_def scenario_defs
      model_of_def stream_of_def lm_constructor authenticate_def buffered_response_def
      log_def Let_def languageModels_def split: outcome.splits)

text \<open>
  Claim C8. For every valid request that supplies a \<open>userId\<close>, if the bearer credential
  is absent or the identity verifier does not confirm that it maps to exactly that
  subject (it maps it to another subject, reports an error or throws), the handler
  responds 401, the store is unchanged, and neither a persistence operation nor a
  provider call is made.
\<close>

theorem unauthenticated_rejected:
  assumes valid: "valid_request e req msgs"
    and user: "body_userId req = Some uid" "uid \<noteq> []"
    and bad: "\<not> credential_confirms svc req uid"
  shows "status_of (fst (handler e svc req w)) = Some 401
       \<and> chats (snd (handler e svc req w)) = chats w
       \<and> messages (snd (handler e svc req w)) = messages w
       \<and> filter is_store_call (calls (snd (handler e svc req w)))
           = filter is_store_call (calls w)
       \<and> filter is_provider_call (calls (snd (handler e svc req w)))
           = filter is_provider_call (calls w)"
proof -
  from authenticate_rejects [OF user bad, of w]
  obtain b w' where a: "authenticate svc req w = (Inl (Json 401 b), w')"
    and frame: "chats w' = chats w" "messages w' = messages w"
      "filter is_store_call (calls w') = filter is_store_call (calls w)"
      "filter is_provider_call (calls w') = filter is_provider_call (calls w)"
    by blast
  have "handler e svc req w = (Json 401 b, w')"
    by (simp add: handler_valid [OF valid] a)
  with frame show ?thesis by simp
qed

theorem unauthenticated_rejected_witness:
  "valid_request example_env no_credential_request hello
   \<and> body_userId no_credential_request = Some (str ''u1'')
   \<and> bearer_token no_credential_request = None
   \<and> status_of (fst (handler example_env example_services no_credential_request empty_world))
       = Some 401
   \<and> calls (snd (handler example_env example_services no_credential_request empty_world)) = []"
proof -
  have valid: "valid_request example_env no_credential_request hello"
    by (simp add: valid_request_def configuration_missing_def truthy_str_def scenario_defs
        model_of_def lm_default)
  have user: "body_userId no_credential_request = Some (str ''u1'')" "str ''u1'' \<noteq> []"
    by (simp_all add: scenario_defs)
  have token: "bearer_token no_credential_request = None"
    by (simp add: bearer_token_def scenario_defs)
  then have bad: "\<not> credential_confirms example_services no_credential_request (str ''u1'')"
    by (simp add: credential_confirms_def)
  have "calls (snd (handler example_env example_services no_credential_request empty_world)) = []"
    using token
    by (simp add: handler_valid [OF valid] authenticate_def truthy_str_def user
        empty_world_fields)
  with unauthenticated_rejected [OF valid user bad, of empty_world]
  show ?thesis
    by (simp add: valid user token)
qed

text \<open>
  The relay handler with persistence hands the messages of a valid request to the
  provider as they are: whatever the messages hold and whatever the provider answers,
  an anonymous buffered request is passed to \<open>generateText\<close> and is not answered 400.
\<close>

lemma handler_passes_messages_on:
  assumes "valid_request e req msgs" and "\<not> truthy_str (body_userId req)"
    and "\<not> stream_of req"
  shows "GenerateText (languageModels_get (model_of req)) msgs
           \<in> set (calls (snd (handler e svc req w)))
       \<and> status_of (fst (handler e svc req w)) \<noteq> Some 400"
  using assms(3)
  by (auto simp: handler_valid [OF assms(1)] authenticate_anonymous [OF assms(2)]
      buffered_response_def truthy_str_def log_def Let_def split: outcome.splits)








section \<open>Deleting sessions\<close>

text \<open>
  Claim C9 states that in every session-deletion operation the message rows of a
  session are deleted before the session row, so that no state has messages whose parent
  session no longer exists. The handler of \<open>api/chat-history.js\<close> issues one delete, on
  \<open>chats\<close>, and none on \<open>messages\<close>: deleting the session \<open>c1\<close> below leaves its message row
  in a store that has no chat row for it.
\<close>

theorem chats_deleted_without_messages:
  "referential_integrity history_world
   \<and> fst (chat_history_handler example_env example_services delete_request history_world)
       = Json 200 SuccessBody
   \<and> calls (snd (chat_history_handler example_env example_services delete_request
                    history_world))
       = [GetUser (str ''token-of-u1''), DeleteChat (str ''c1'') (Some (str ''u1''))]
   \<and> \<not> referential_integrity
         (snd (chat_history_handler example_env example_services delete_request
                 history_world))"
  by (simp add: chat_history_handler_def history_configuration_missing_def truthy_str_def
      scenario_defs bearer_token_def bearer_example referential_integrity_def
      delete_chats_where_def log_def Let_def)

lemma delete_session_integrity:
  assumes "referential_integrity w"
  shows "\<forall>w'\<in>set (snd (delete_session svc uid sid w)). referential_integrity w'"
  using assms
  by (auto simp: delete_session_def Let_def referential_integrity_def delete_chats_where_def
      delete_messages_where_def log_def split: option.splits)

lemma delete_all_sessions_integrity:
  assumes "referential_integrity w"
  shows "\<forall>w'\<in>set (snd (delete_all_sessions svc uid w)). referential_integrity w'"
  using assms
  by (auto simp: delete_all_sessions_def Let_def referential_integrity_def
      delete_chats_where_def delete_messages_where_def log_def)

lemma integrity_log: "referential_integrity (log c w) = referential_integrity w"
  by (simp add: referential_integrity_def log_def)

text \<open>
  Claim C9, amended. In every session-deletion operation of \<open>handleDelete\<close> in
  \<open>New api/chat-history.js\<close> (a single session or all sessions of an owner), the message
  rows of a session are deleted before the session row: started in a store where every
  message belongs to a chat, every state the operation passes through, whichever store
  call fails, has no message whose parent session does not exist.
\<close>

theorem handleDelete_preserves_integrity:
  assumes "referential_integrity w"
  shows "\<forall>w'\<in>set (snd (handleDelete e svc req w)). referential_integrity w'"
proof -
  have w0: "referential_integrity (log c w)" for c
    using assms by (simp add: integrity_log)
  show ?thesis
    using assms delete_session_integrity [OF w0] delete_all_sessions_integrity [OF w0]
    by (auto simp: handleDelete_def Let_def integrity_log split: outcome.splits)
qed

lemma integrity_history_world: "referential_integrity history_world"
  by (simp add: referential_integrity_def history_world_def)

theorem handleDelete_preserves_integrity_witness:
  "referential_integrity history_world
   \<and> list_all referential_integrity
       (snd (handleDelete example_env example_services delete_request history_world))
   \<and> fst (handleDelete example_env example_services delete_request history_world)
       = Json 200 SuccessBody
   \<and> calls (last (snd (handleDelete example_env example_services delete_request
                          history_world)))
       = [VerifyIdToken (str ''token-of-u1''), SelectChat (str ''c1'') (str ''u1''),
          DeleteMessages [str ''c1''], DeleteChat (str ''c1'') None]
   \<and> chats (last (snd (handleDelete example_env example_services delete_request
                          history_world))) = []
   \<and> messages (last (snd (handleDelete example_env example_services delete_request
                             history_world))) = []"
proof -
  have run: "handleDelete example_env example_services delete_request history_world
      = delete_session example_services (str ''u1'') (str ''c1'')
          (log (VerifyIdToken (str ''token-of-u1'')) history_world)"
    by (simp add: handleDelete_def history_configuration_missing_def truthy_str_def
        bearer_token_def bearer_example scenario_defs Let_def)
  have final: "fst (delete_session example_services (str ''u1'') (str ''c1'')
                      (log (VerifyIdToken (str ''token-of-u1'')) history_world))
                 = Json 200 SuccessBody"
    "calls (last (snd (delete_session example_services (str ''u1'') (str ''c1'')
                      (log (VerifyIdToken (str ''token-of-u1'')) history_world))))
       = [VerifyIdToken (str ''token-of-u1''), SelectChat (str ''c1'') (str ''u1''),
          DeleteMessages [str ''c1''], DeleteChat (str ''c1'') None]"
    "chats (last (snd (delete_session example_services (str ''u1'') (str ''c1'')
                      (log (VerifyIdToken (str ''token-of-u1'')) history_world)))) = []"
    "messages (last (snd (delete_session example_services (str ''u1'') (str ''c1'')
                      (log (VerifyIdToken (str ''token-of-u1'')) history_world)))) = []"
    by (simp_all add: delete_session_def select_single_def delete_messages_where_def
        delete_chats_where_def log_def scenario_defs Let_def)
  from handleDelete_preserves_integrity [OF integrity_history_world,
         of example_env example_services delete_request]
  have "list_all referential_integrity
          (snd (handleDelete example_env example_services delete_request history_world))"
    by (simp add: list_all_iff)
  then show ?thesis
    using final by (simp add: integrity_history_world run)
qed

end
